theory Spec2Isabelle
  imports Complex_Main
begin

section \<open>Crashify360: the validation gate and the total-loss decision engine\<close>

text \<open>
  The development embeds \<^verbatim>\<open>config.py\<close>, \<^verbatim>\<open>validator.py\<close> and
  \<^verbatim>\<open>valuation_engine.py\<close>. Conventions of the embedding:
  \<^item> a Python \<^verbatim>\<open>float\<close> is a \<^typ>\<open>real\<close>: the arithmetic is exact, and the
    values \<^verbatim>\<open>nan\<close> and \<^verbatim>\<open>inf\<close> do not exist in the model;
  \<^item> a Python \<^verbatim>\<open>str\<close> is a \<^typ>\<open>string\<close> of ASCII characters; on them
    \<^verbatim>\<open>strip\<close>, \<^verbatim>\<open>upper\<close> and \<^verbatim>\<open>lower\<close> are as in Python, any other
    character is kept as it is and is not white space;
  \<^item> a raised exception is the left summand of the result;
  \<^item> the text of a message is a constructor of \<open>message\<close> holding the values that the
    f-string interpolates, and an error keeps the offending value itself where the source
    keeps its \<^verbatim>\<open>str(...)\<close>; the calls of the logger and the time stamp of a result
    are left out.
\<close>

subsection \<open>Exceptions and untyped monetary arguments\<close>

datatype py_error =
    ValueError_float
  | TypeError_float
  | ZeroDivisionError
  | ValueError_loss_type string

text \<open>
  The monetary arguments are typed \<^verbatim>\<open>Any\<close>, and the code reads them through
  \<^verbatim>\<open>float(...)\<close> only. \<open>Numeric x\<close> is any argument that \<^verbatim>\<open>float\<close> converts to
  \<open>x\<close> (an int, a float, a numeric string), \<open>NonNumeric\<close> one on which it raises
  \<^verbatim>\<open>ValueError\<close> (the string "abc"), \<open>NonConvertible\<close> one on which it raises
  \<^verbatim>\<open>TypeError\<close> (\<^verbatim>\<open>None\<close>, a list).
\<close>

datatype raw_value = Numeric real | NonNumeric | NonConvertible

fun py_float :: "raw_value \<Rightarrow> py_error + real" where
  "py_float (Numeric x) = Inr x"
| "py_float NonNumeric = Inl ValueError_float"
| "py_float NonConvertible = Inl TypeError_float"

definition py_div :: "real \<Rightarrow> real \<Rightarrow> py_error + real" where
  "py_div a b = (if b = 0 then Inl ZeroDivisionError else Inr (a / b))"

text \<open>Sequencing: an exception of the first statement ends the function.\<close>

definition bind_result :: "py_error + 'a \<Rightarrow> ('a \<Rightarrow> py_error + 'b) \<Rightarrow> py_error + 'b" where
  "bind_result m f = (case m of Inl e \<Rightarrow> Inl e | Inr x \<Rightarrow> f x)"

subsection \<open>config.py\<close>

definition THRESHOLDS :: "(string \<times> real) list" where
  "THRESHOLDS =
     [(''client'', 7 / 10),
      (''third_party'', 7 / 10),
      (''commercial'', 65 / 100),
      (''luxury'', 75 / 100)]"

definition POLICY_TYPES :: "string list" where
  "POLICY_TYPES =
     [''comprehensive'', ''third_party_property'', ''third_party_fire_theft'', ''commercial'']"

definition LOSS_TYPES :: "(string \<times> string) list" where
  "LOSS_TYPES =
     [(''client'', ''Client Vehicle (Own Damage)''),
      (''third_party'', ''Third Party Vehicle'')]"

definition min_policy_value :: real where "min_policy_value = 1000"
definition max_policy_value :: real where "max_policy_value = 500000"
definition min_salvage_value :: real where "min_salvage_value = 0"
definition min_repair_quote :: real where "min_repair_quote = 0"
definition max_repair_quote_ratio :: real where "max_repair_quote_ratio = 2"

text \<open>
  \<^verbatim>\<open>THRESHOLDS.get(policy_type, THRESHOLDS["client"])\<close>: the default is read from the
  table itself, under a key that the table holds.
\<close>

definition get_threshold :: "string \<Rightarrow> real" where
  "get_threshold policy_type =
     (case map_of THRESHOLDS policy_type of
        Some t \<Rightarrow> t
      | None \<Rightarrow> the (map_of THRESHOLDS ''client''))"

subsection \<open>String operations of Python used by the validator\<close>

definition is_space :: "char \<Rightarrow> bool" where
  "is_space c \<longleftrightarrow>
     c \<in> set [CHR 0x09, CHR 0x0A, CHR 0x0B, CHR 0x0C, CHR 0x0D,
              CHR 0x1C, CHR 0x1D, CHR 0x1E, CHR 0x1F, CHR 0x20]"

definition py_strip :: "string \<Rightarrow> string" where
  "py_strip s = rev (dropWhile is_space (rev (dropWhile is_space s)))"

definition ascii_lowercase :: string where
  "ascii_lowercase = ''abcdefghijklmnopqrstuvwxyz''"

definition ascii_uppercase :: string where
  "ascii_uppercase = ''ABCDEFGHIJKLMNOPQRSTUVWXYZ''"

definition upper_char :: "char \<Rightarrow> char" where
  "upper_char c =
     (case map_of (zip ascii_lowercase ascii_uppercase) c of Some u \<Rightarrow> u | None \<Rightarrow> c)"

definition lower_char :: "char \<Rightarrow> char" where
  "lower_char c =
     (case map_of (zip ascii_uppercase ascii_lowercase) c of Some l \<Rightarrow> l | None \<Rightarrow> c)"

definition py_upper :: "string \<Rightarrow> string" where
  "py_upper s = map upper_char s"

definition py_lower :: "string \<Rightarrow> string" where
  "py_lower s = map lower_char s"

subsection \<open>validator.py: ValidationResult\<close>

datatype message =
    Invalid_vin_format
  | Invalid_policy_type "string list"
  | Invalid_loss_type "string list"
  | Must_be_a_valid_number string
  | Cannot_be_negative string
  | Must_be_at_least string real
  | Cannot_exceed string real
  | Salvage_cannot_exceed_policy
  | Repair_quote_is_multiple real

datatype py_value = Str string | Raw raw_value | Float real

record error_entry =
  err_field :: string
  err_message :: message
  err_value :: py_value

record warning_entry =
  warn_field :: string
  warn_message :: message

record ValidationResult =
  errors :: "error_entry list"
  warnings :: "warning_entry list"

definition new_ValidationResult :: ValidationResult where
  "new_ValidationResult = \<lparr>errors = [], warnings = []\<rparr>"

definition add_error :: "string \<Rightarrow> message \<Rightarrow> py_value \<Rightarrow> ValidationResult \<Rightarrow> ValidationResult" where
  "add_error fld msg v result =
     result\<lparr>errors := errors result @ [\<lparr>err_field = fld, err_message = msg, err_value = v\<rparr>]\<rparr>"

definition add_warning :: "string \<Rightarrow> message \<Rightarrow> ValidationResult \<Rightarrow> ValidationResult" where
  "add_warning fld msg result =
     result\<lparr>warnings := warnings result @ [\<lparr>warn_field = fld, warn_message = msg\<rparr>]\<rparr>"

definition is_valid :: "ValidationResult \<Rightarrow> bool" where
  "is_valid result \<longleftrightarrow> length (errors result) = 0"

text \<open>
  \<^verbatim>\<open>get_summary\<close>: the line of a valid outcome, with the number of warnings when
  there are some, or the number of errors followed by one line for each error.
\<close>

datatype summary =
    All_validations_passed "nat option"
  | Validation_failed nat "(string \<times> message) list"

definition get_summary :: "ValidationResult \<Rightarrow> summary" where
  "get_summary result =
     (if is_valid result
      then All_validations_passed
             (if warnings result \<noteq> [] then Some (length (warnings result)) else None)
      else Validation_failed (length (errors result))
             (map (\<lambda>e. (err_field e, err_message e)) (errors result)))"

subsection \<open>validator.py: InputValidator\<close>

definition in_range :: "char \<Rightarrow> char \<Rightarrow> char \<Rightarrow> bool" where
  "in_range lo hi c \<longleftrightarrow> (of_char lo :: nat) \<le> of_char c \<and> (of_char c :: nat) \<le> of_char hi"

text \<open>The character class \<^verbatim>\<open>[A-HJ-NPR-Z0-9]\<close>.\<close>

definition vin_class :: "char \<Rightarrow> bool" where
  "vin_class c \<longleftrightarrow>
     in_range CHR ''A'' CHR ''H'' c \<or> in_range CHR ''J'' CHR ''N'' c \<or> c = CHR ''P''
     \<or> in_range CHR ''R'' CHR ''Z'' c \<or> in_range CHR ''0'' CHR ''9'' c"

text \<open>
  \<^verbatim>\<open>re.match(r'^[A-HJ-NPR-Z0-9]{17}$', s)\<close>: seventeen characters of the class from the
  start of \<open>s\<close>, then the end of \<open>s\<close>, which \<^verbatim>\<open>$\<close> also finds before one last line feed.
\<close>

definition vin_pattern_match :: "string \<Rightarrow> bool" where
  "vin_pattern_match s \<longleftrightarrow>
     length (take 17 s) = 17 \<and> list_all vin_class (take 17 s)
     \<and> (drop 17 s = [] \<or> drop 17 s = [CHR 0x0A])"

definition validate_vin :: "string \<Rightarrow> bool" where
  "validate_vin vin =
     (if vin = [] then False
      else let vin = py_upper (py_strip vin) in
        if length vin \<noteq> 17 then False
        else if \<not> vin_pattern_match vin then False
        else True)"

text \<open>
  \<^verbatim>\<open>validate_monetary_value\<close> tests \<^verbatim>\<open>value < 0\<close>, \<^verbatim>\<open>value < min_value\<close> and
  \<^verbatim>\<open>value > max_value\<close>, and the cross-field checks test \<^verbatim>\<open>>\<close> as well. On the
  float \<^verbatim>\<open>nan\<close> each of these tests is false in Python, so \<^verbatim>\<open>nan\<close> passes them all;
  \<open>Numeric\<close> holds a real number, so what is proved below about a validated value is
  about a number. An int too large for a double makes \<^verbatim>\<open>float\<close> raise
  \<^verbatim>\<open>OverflowError\<close>, which \<open>raw_value\<close> does not cover either.
\<close>

definition validate_monetary_value ::
  "raw_value \<Rightarrow> string \<Rightarrow> real option \<Rightarrow> real option \<Rightarrow> bool \<times> message option" where
  "validate_monetary_value v field_name min_value max_value =
     (case py_float v of
        Inl _ \<Rightarrow> (False, Some (Must_be_a_valid_number field_name))
      | Inr x \<Rightarrow>
          if x < 0 then (False, Some (Cannot_be_negative field_name))
          else if (case min_value of None \<Rightarrow> False | Some lo \<Rightarrow> x < lo)
            then (False, Some (Must_be_at_least field_name (the min_value)))
          else if (case max_value of None \<Rightarrow> False | Some hi \<Rightarrow> x > hi)
            then (False, Some (Cannot_exceed field_name (the max_value)))
          else (True, None))"

definition validate_policy_type :: "string \<Rightarrow> bool" where
  "validate_policy_type policy_type \<longleftrightarrow> py_lower policy_type \<in> set POLICY_TYPES"

definition validate_loss_type :: "string \<Rightarrow> bool" where
  "validate_loss_type loss_type \<longleftrightarrow> py_lower loss_type \<in> set (map fst LOSS_TYPES)"

text \<open>
  The body of \<^verbatim>\<open>validate_total_loss_input\<close>, block by block in the order of the
  source, for the call the engine makes: \<^verbatim>\<open>owner_email\<close> and \<^verbatim>\<open>owner_phone\<close> keep
  their default \<^verbatim>\<open>None\<close>, so the two optional checks add nothing. Rebinding
  \<^verbatim>\<open>policy_value = float(policy_value)\<close> after a successful check leaves
  \<^verbatim>\<open>float(policy_value)\<close> as it was, so the later blocks read the argument itself.
  Each rebinding stands outside the \<^verbatim>\<open>try\<close> blocks, so an exception of its
  \<^verbatim>\<open>float\<close> would leave the function.

  The two cross-field checks run inside \<^verbatim>\<open>try ... except (ValueError, TypeError)\<close>:
  a failing \<^verbatim>\<open>float(policy_value)\<close> skips the check. The quotient interpolated in
  the warning is computed inside that \<^verbatim>\<open>try\<close> too, and its
  \<^verbatim>\<open>ZeroDivisionError\<close> is not among the exceptions caught.
\<close>

definition check_vin :: "string \<Rightarrow> ValidationResult \<Rightarrow> ValidationResult" where
  "check_vin vin result =
     (if \<not> validate_vin vin then add_error ''vin'' Invalid_vin_format (Str vin) result
      else result)"

definition check_policy_type :: "string \<Rightarrow> ValidationResult \<Rightarrow> ValidationResult" where
  "check_policy_type policy_type result =
     (if \<not> validate_policy_type policy_type
      then add_error ''policy_type'' (Invalid_policy_type POLICY_TYPES) (Str policy_type) result
      else result)"

definition check_loss_type :: "string \<Rightarrow> ValidationResult \<Rightarrow> ValidationResult" where
  "check_loss_type loss_type result =
     (if \<not> validate_loss_type loss_type
      then add_error ''loss_type'' (Invalid_loss_type (map fst LOSS_TYPES)) (Str loss_type) result
      else result)"

definition check_policy_value ::
  "raw_value \<Rightarrow> ValidationResult \<Rightarrow> py_error + ValidationResult" where
  "check_policy_value policy_value result =
     (case validate_monetary_value policy_value ''Policy Value''
             (Some min_policy_value) (Some max_policy_value) of
        (ok, error_msg) \<Rightarrow>
          if \<not> ok
          then Inr (add_error ''policy_value'' (the error_msg) (Raw policy_value) result)
          else (case py_float policy_value of Inl e \<Rightarrow> Inl e | Inr p \<Rightarrow> Inr result))"

definition check_salvage_value ::
  "raw_value \<Rightarrow> raw_value \<Rightarrow> ValidationResult \<Rightarrow> py_error + ValidationResult" where
  "check_salvage_value salvage_value policy_value result =
     (case validate_monetary_value salvage_value ''Salvage Value''
             (Some min_salvage_value) None of
        (ok, error_msg) \<Rightarrow>
          if \<not> ok
          then Inr (add_error ''salvage_value'' (the error_msg) (Raw salvage_value) result)
          else
            (case py_float salvage_value of
               Inl e \<Rightarrow> Inl e
             | Inr s \<Rightarrow>
                 (case py_float policy_value of
                    Inl _ \<Rightarrow> Inr result
                  | Inr p \<Rightarrow>
                      if s > p
                      then Inr (add_error ''salvage_value'' Salvage_cannot_exceed_policy
                                  (Float s) result)
                      else Inr result)))"

definition check_repair_quote ::
  "raw_value \<Rightarrow> raw_value \<Rightarrow> ValidationResult \<Rightarrow> py_error + ValidationResult" where
  "check_repair_quote repair_quote policy_value result =
     (case validate_monetary_value repair_quote ''Repair Quote''
             (Some min_repair_quote) None of
        (ok, error_msg) \<Rightarrow>
          if \<not> ok
          then Inr (add_error ''repair_quote'' (the error_msg) (Raw repair_quote) result)
          else
            (case py_float repair_quote of
               Inl e \<Rightarrow> Inl e
             | Inr r \<Rightarrow>
                 (case py_float policy_value of
                    Inl _ \<Rightarrow> Inr result
                  | Inr p \<Rightarrow>
                      if r > p * max_repair_quote_ratio
                      then (case py_div r p of
                              Inl e \<Rightarrow> Inl e
                            | Inr q \<Rightarrow>
                                Inr (add_warning ''repair_quote'' (Repair_quote_is_multiple q) result))
                      else Inr result)))"

definition validate_total_loss_input ::
  "string \<Rightarrow> string \<Rightarrow> raw_value \<Rightarrow> raw_value \<Rightarrow> raw_value \<Rightarrow> string
     \<Rightarrow> py_error + ValidationResult" where
  "validate_total_loss_input vin policy_type policy_value salvage_value repair_quote loss_type =
     bind_result
       (check_policy_value policy_value
         (check_loss_type loss_type
           (check_policy_type policy_type
             (check_vin vin new_ValidationResult))))
       (\<lambda>result. bind_result
          (check_salvage_value salvage_value policy_value result)
          (check_repair_quote repair_quote policy_value))"

subsection \<open>valuation_engine.py: ValuationResult\<close>

text \<open>
  The label \<^verbatim>\<open>calculation_method\<close> interpolates \<^verbatim>\<open>threshold_pct*100\<close> into one of
  two texts.
\<close>

datatype calculation_method =
    Percent_of_Policy_Value real
  | Percent_of_Net_Value real

record ValuationResult =
  is_total_loss :: bool
  threshold :: real
  policy_value :: real
  salvage_value :: real
  repair_quote :: real
  loss_type :: string
  policy_type :: string
  vin :: string
  calculation_method :: calculation_method
  threshold_percentage :: real
  decision_margin :: real

text \<open>
  \<^verbatim>\<open>ValuationResult.__init__\<close>. The quotient is a Python division, which raises on a
  zero divisor; the conditional expression evaluates it only when its test holds.
\<close>

definition init_ValuationResult ::
  "bool \<Rightarrow> real \<Rightarrow> real \<Rightarrow> real \<Rightarrow> real \<Rightarrow> string \<Rightarrow> string \<Rightarrow> string
     \<Rightarrow> calculation_method \<Rightarrow> py_error + ValuationResult" where
  "init_ValuationResult itl th pv sv rq lt pt vn cm =
     bind_result
       (if th > 0 then bind_result (py_div rq th) (\<lambda>q. Inr (q * 100)) else Inr 0)
       (\<lambda>pct. Inr \<lparr>is_total_loss = itl, threshold = th, policy_value = pv, salvage_value = sv,
                  repair_quote = rq, loss_type = lt, policy_type = pt, vin = vn,
                  calculation_method = cm, threshold_percentage = pct,
                  decision_margin = rq - th\<rparr>)"

text \<open>
  \<^verbatim>\<open>round(x, 2)\<close> on exact numbers: to the nearest hundredth, a tie to the even one.
\<close>

definition round2 :: "real \<Rightarrow> real" where
  "round2 x =
     (let y = x * 100; f = \<lfloor>y\<rfloor>; d = y - of_int f in
      (if d < 1 / 2 then of_int f
       else if d > 1 / 2 then of_int (f + 1)
       else if even f then of_int f else of_int (f + 1)) / 100)"

record result_dict =
  d_vin :: string
  d_decision :: string
  d_loss_type :: string
  d_policy_type :: string
  d_policy_value :: real
  d_salvage_value :: real
  d_repair_quote :: real
  d_threshold :: real
  d_threshold_percentage :: real
  d_decision_margin :: real
  d_calculation_method :: calculation_method

definition to_dict :: "ValuationResult \<Rightarrow> result_dict" where
  "to_dict r =
     \<lparr>d_vin = vin r,
      d_decision = (if is_total_loss r then ''TOTAL LOSS'' else ''REPAIRABLE''),
      d_loss_type = loss_type r,
      d_policy_type = policy_type r,
      d_policy_value = round2 (policy_value r),
      d_salvage_value = round2 (salvage_value r),
      d_repair_quote = round2 (repair_quote r),
      d_threshold = round2 (threshold r),
      d_threshold_percentage = round2 (threshold_percentage r),
      d_decision_margin = round2 (decision_margin r),
      d_calculation_method = calculation_method r\<rparr>"

subsection \<open>valuation_engine.py: ValuationEngine\<close>

definition calculate_total_loss ::
  "string \<Rightarrow> string \<Rightarrow> raw_value \<Rightarrow> raw_value \<Rightarrow> raw_value \<Rightarrow> string \<Rightarrow> bool
     \<Rightarrow> py_error + (ValuationResult option \<times> ValidationResult)" where
  "calculate_total_loss vn pt pv sv rq lt skip_validation =
     bind_result
       (if \<not> skip_validation then validate_total_loss_input vn pt pv sv rq lt
        else Inr new_ValidationResult)
       (\<lambda>validation.
          if \<not> skip_validation \<and> \<not> is_valid validation then Inr (None, validation)
          else
            bind_result (py_float pv) (\<lambda>p.
            bind_result (py_float sv) (\<lambda>s.
            bind_result (py_float rq) (\<lambda>r.
              let threshold_pct = get_threshold pt in
              bind_result
                (if lt = ''client''
                 then Inr (p * threshold_pct, Percent_of_Policy_Value (threshold_pct * 100))
                 else if lt = ''third_party''
                 then (let net_value = p - s in
                       Inr (net_value * threshold_pct,
                            Percent_of_Net_Value (threshold_pct * 100)))
                 else Inl (ValueError_loss_type lt))
                (\<lambda>(th, cm).
                   bind_result (init_ValuationResult (r > th) th p s r lt pt vn cm)
                     (\<lambda>result. Inr (Some result, validation)))))))"

text \<open>
  A case of a batch is a dictionary passed as keyword arguments; the record holds the
  seven parameters of \<^verbatim>\<open>calculate_total_loss\<close>, the defaults filled in.
\<close>

record valuation_case =
  case_vin :: string
  case_policy_type :: string
  case_policy_value :: raw_value
  case_salvage_value :: raw_value
  case_repair_quote :: raw_value
  case_loss_type :: string
  case_skip_validation :: bool

definition evaluate ::
  "valuation_case \<Rightarrow> py_error + (ValuationResult option \<times> ValidationResult)" where
  "evaluate c =
     calculate_total_loss (case_vin c) (case_policy_type c) (case_policy_value c)
       (case_salvage_value c) (case_repair_quote c) (case_loss_type c) (case_skip_validation c)"

record batch_entry =
  entry_case :: valuation_case
  entry_result :: "result_dict option"
  entry_validation :: summary

definition make_entry ::
  "valuation_case \<Rightarrow> ValuationResult option \<times> ValidationResult \<Rightarrow> batch_entry" where
  "make_entry c out =
     \<lparr>entry_case = c,
      entry_result = (case fst out of Some result \<Rightarrow> Some (to_dict result) | None \<Rightarrow> None),
      entry_validation = get_summary (snd out)\<rparr>"

text \<open>The loop of \<^verbatim>\<open>calculate_batch\<close>, \<open>results\<close> being the list built so far.\<close>

fun batch_loop :: "valuation_case list \<Rightarrow> batch_entry list \<Rightarrow> py_error + batch_entry list" where
  "batch_loop [] results = Inr results"
| "batch_loop (c # cases) results =
     (case evaluate c of
        Inl e \<Rightarrow> Inl e
      | Inr out \<Rightarrow> batch_loop cases (results @ [make_entry c out]))"

definition calculate_batch :: "valuation_case list \<Rightarrow> py_error + batch_entry list" where
  "calculate_batch cases = batch_loop cases []"

subsection \<open>Observations on an outcome, and the alphabet of the specification\<close>

text \<open>The fields named by the errors and by the warnings of an outcome, in order.\<close>

definition error_fields :: "ValidationResult \<Rightarrow> string list" where
  "error_fields result = map err_field (errors result)"

definition warning_fields :: "ValidationResult \<Rightarrow> string list" where
  "warning_fields result = map warn_field (warnings result)"

text \<open>
  The alphabet as the specification words it: the digits and the uppercase letters
  without I, O and Q. The validator's own character class is \<open>vin_class\<close> above.
\<close>

definition spec_vin_alphabet :: "char set" where
  "spec_vin_alphabet =
     (set ''0123456789'' \<union> set ascii_uppercase) - {CHR ''I'', CHR ''O'', CHR ''Q''}"

section \<open>Properties\<close>

subsection \<open>The blocks of the validator\<close>

lemma errors_add_error:
  "map err_field (errors (add_error fld msg v r)) = map err_field (errors r) @ [fld]"
  "warnings (add_error fld msg v r) = warnings r"
  by (simp_all add: add_error_def)

lemma errors_add_warning:
  "errors (add_warning fld msg r) = errors r"
  "map warn_field (warnings (add_warning fld msg r)) = map warn_field (warnings r) @ [fld]"
  by (simp_all add: add_warning_def)

lemma check_vin_fields:
  "map err_field (errors (check_vin vn r))
     = map err_field (errors r) @ (if validate_vin vn then [] else [''vin''])"
  "warnings (check_vin vn r) = warnings r"
  by (simp_all add: check_vin_def errors_add_error)

lemma check_policy_type_fields:
  "map err_field (errors (check_policy_type pt r))
     = map err_field (errors r) @ (if validate_policy_type pt then [] else [''policy_type''])"
  "warnings (check_policy_type pt r) = warnings r"
  by (simp_all add: check_policy_type_def errors_add_error)

lemma check_loss_type_fields:
  "map err_field (errors (check_loss_type lt r))
     = map err_field (errors r) @ (if validate_loss_type lt then [] else [''loss_type''])"
  "warnings (check_loss_type lt r) = warnings r"
  by (simp_all add: check_loss_type_def errors_add_error)

lemma validate_monetary_value_ok:
  "fst (validate_monetary_value v fn lo hi) \<longleftrightarrow>
     (\<exists>x. v = Numeric x \<and> 0 \<le> x
          \<and> (case lo of None \<Rightarrow> True | Some l \<Rightarrow> l \<le> x)
          \<and> (case hi of None \<Rightarrow> True | Some h \<Rightarrow> x \<le> h))"
  by (cases v) (auto simp: validate_monetary_value_def split: option.splits)

lemma check_policy_value_fields:
  "\<exists>r'. check_policy_value pv r = Inr r'
     \<and> map err_field (errors r')
         = map err_field (errors r) @
             (if (\<exists>p. pv = Numeric p \<and> 1000 \<le> p \<and> p \<le> 500000) then [] else [''policy_value''])
     \<and> warnings r' = warnings r"
  by (cases pv)
     (auto simp: check_policy_value_def validate_monetary_value_def errors_add_error
                 min_policy_value_def max_policy_value_def)

lemma check_salvage_value_fields:
  "\<exists>r'. check_salvage_value sv pv r = Inr r'
     \<and> map err_field (errors r')
         = map err_field (errors r) @
             (if (\<exists>s. sv = Numeric s \<and> 0 \<le> s \<and> (\<forall>p. pv = Numeric p \<longrightarrow> s \<le> p))
              then [] else [''salvage_value''])
     \<and> warnings r' = warnings r"
  by (cases sv; cases pv)
     (auto simp: check_salvage_value_def validate_monetary_value_def errors_add_error
                 min_salvage_value_def)

lemma check_repair_quote_raises:
  "check_repair_quote rq pv r = Inl e \<longleftrightarrow>
     e = ZeroDivisionError \<and> pv = Numeric 0 \<and> (\<exists>q. rq = Numeric q \<and> 0 < q)"
  by (cases rq; cases pv)
     (auto simp: check_repair_quote_def validate_monetary_value_def py_div_def
                 min_repair_quote_def max_repair_quote_ratio_def)

lemma check_repair_quote_fields:
  assumes "check_repair_quote rq pv r = Inr r'"
  shows "map err_field (errors r')
           = map err_field (errors r) @
               (if (\<exists>q. rq = Numeric q \<and> 0 \<le> q) then [] else [''repair_quote''])"
    and "map warn_field (warnings r')
           = map warn_field (warnings r) @
               (if (\<exists>q p. rq = Numeric q \<and> 0 \<le> q \<and> pv = Numeric p \<and> q > p * 2)
                then [''repair_quote''] else [])"
  using assms
  by (cases rq; cases pv;
      auto simp: check_repair_quote_def validate_monetary_value_def py_div_def
                 errors_add_error errors_add_warning
                 min_repair_quote_def max_repair_quote_ratio_def split: if_splits)+

lemma validate_total_loss_input_raises:
  "validate_total_loss_input vn pt pv sv rq lt = Inl e \<longleftrightarrow>
     e = ZeroDivisionError \<and> pv = Numeric 0 \<and> (\<exists>q. rq = Numeric q \<and> 0 < q)"
proof -
  let ?r3 = "check_loss_type lt (check_policy_type pt (check_vin vn new_ValidationResult))"
  obtain r4 where r4: "check_policy_value pv ?r3 = Inr r4"
    using check_policy_value_fields [of pv ?r3] by blast
  obtain r5 where r5: "check_salvage_value sv pv r4 = Inr r5"
    using check_salvage_value_fields [of sv pv r4] by blast
  have "validate_total_loss_input vn pt pv sv rq lt = check_repair_quote rq pv r5"
    by (simp add: validate_total_loss_input_def bind_result_def r4 r5)
  then show ?thesis
    by (simp add: check_repair_quote_raises)
qed

lemma validate_total_loss_input_fields:
  assumes "validate_total_loss_input vn pt pv sv rq lt = Inr v"
  shows "error_fields v =
           (if validate_vin vn then [] else [''vin'']) @
           (if validate_policy_type pt then [] else [''policy_type'']) @
           (if validate_loss_type lt then [] else [''loss_type'']) @
           (if (\<exists>p. pv = Numeric p \<and> 1000 \<le> p \<and> p \<le> 500000) then [] else [''policy_value'']) @
           (if (\<exists>s. sv = Numeric s \<and> 0 \<le> s \<and> (\<forall>p. pv = Numeric p \<longrightarrow> s \<le> p))
            then [] else [''salvage_value'']) @
           (if (\<exists>q. rq = Numeric q \<and> 0 \<le> q) then [] else [''repair_quote''])"
    and "warning_fields v =
           (if (\<exists>q p. rq = Numeric q \<and> 0 \<le> q \<and> pv = Numeric p \<and> q > p * 2)
            then [''repair_quote''] else [])"
proof -
  let ?r3 = "check_loss_type lt (check_policy_type pt (check_vin vn new_ValidationResult))"
  have e3: "map err_field (errors ?r3) =
              (if validate_vin vn then [] else [''vin'']) @
              (if validate_policy_type pt then [] else [''policy_type'']) @
              (if validate_loss_type lt then [] else [''loss_type''])"
    and w3: "warnings ?r3 = []"
    by (simp_all add: check_loss_type_fields check_policy_type_fields check_vin_fields
                      new_ValidationResult_def)
  obtain r4 where r4: "check_policy_value pv ?r3 = Inr r4"
    and e4: "map err_field (errors r4) = map err_field (errors ?r3) @
               (if (\<exists>p. pv = Numeric p \<and> 1000 \<le> p \<and> p \<le> 500000) then [] else [''policy_value''])"
    and w4: "warnings r4 = warnings ?r3"
    using check_policy_value_fields [of pv ?r3] by blast
  obtain r5 where r5: "check_salvage_value sv pv r4 = Inr r5"
    and e5: "map err_field (errors r5) = map err_field (errors r4) @
               (if (\<exists>s. sv = Numeric s \<and> 0 \<le> s \<and> (\<forall>p. pv = Numeric p \<longrightarrow> s \<le> p))
                then [] else [''salvage_value''])"
    and w5: "warnings r5 = warnings r4"
    using check_salvage_value_fields [of sv pv r4] by blast
  have "validate_total_loss_input vn pt pv sv rq lt = check_repair_quote rq pv r5"
    by (simp add: validate_total_loss_input_def bind_result_def r4 r5)
  with assms have r6: "check_repair_quote rq pv r5 = Inr v" by simp
  show "error_fields v =
           (if validate_vin vn then [] else [''vin'']) @
           (if validate_policy_type pt then [] else [''policy_type'']) @
           (if validate_loss_type lt then [] else [''loss_type'']) @
           (if (\<exists>p. pv = Numeric p \<and> 1000 \<le> p \<and> p \<le> 500000) then [] else [''policy_value'']) @
           (if (\<exists>s. sv = Numeric s \<and> 0 \<le> s \<and> (\<forall>p. pv = Numeric p \<longrightarrow> s \<le> p))
            then [] else [''salvage_value'']) @
           (if (\<exists>q. rq = Numeric q \<and> 0 \<le> q) then [] else [''repair_quote''])"
    unfolding error_fields_def check_repair_quote_fields(1) [OF r6] e5 e4 e3 by simp
  show "warning_fields v =
           (if (\<exists>q p. rq = Numeric q \<and> 0 \<le> q \<and> pv = Numeric p \<and> q > p * 2)
            then [''repair_quote''] else [])"
    unfolding warning_fields_def check_repair_quote_fields(2) [OF r6] w5 w4 w3 by simp
qed

lemma is_valid_error_fields: "is_valid v \<longleftrightarrow> error_fields v = []"
  by (simp add: is_valid_def error_fields_def)

lemma valid_input_iff:
  assumes "validate_total_loss_input vn pt pv sv rq lt = Inr v"
  shows "is_valid v \<longleftrightarrow>
           validate_vin vn \<and> validate_policy_type pt \<and> validate_loss_type lt
           \<and> (\<exists>p s q. pv = Numeric p \<and> sv = Numeric s \<and> rq = Numeric q
                 \<and> 1000 \<le> p \<and> p \<le> 500000 \<and> 0 \<le> s \<and> s \<le> p \<and> 0 \<le> q)"
  unfolding is_valid_error_fields validate_total_loss_input_fields(1) [OF assms]
  by (auto split: if_splits)

lemma get_threshold_cases:
  "get_threshold pt = (if pt = ''commercial'' then 65 / 100 else if pt = ''luxury'' then 75 / 100 else 7 / 10)"
  by (simp add: get_threshold_def THRESHOLDS_def)

lemma calculate_total_loss_Some:
  assumes "calculate_total_loss vn pt pv sv rq lt skip = Inr (Some res, v)"
  shows "\<exists>p s r th. pv = Numeric p \<and> sv = Numeric s \<and> rq = Numeric r
           \<and> (lt = ''client'' \<and> th = p * get_threshold pt
                \<and> calculation_method res = Percent_of_Policy_Value (get_threshold pt * 100)
              \<or> lt = ''third_party'' \<and> th = (p - s) * get_threshold pt
                \<and> calculation_method res = Percent_of_Net_Value (get_threshold pt * 100))
           \<and> is_total_loss res = (r > th) \<and> threshold res = th
           \<and> policy_value res = p \<and> salvage_value res = s \<and> repair_quote res = r
           \<and> loss_type res = lt \<and> policy_type res = pt \<and> vin res = vn
           \<and> threshold_percentage res = (if th > 0 then r / th * 100 else 0)
           \<and> decision_margin res = r - th
           \<and> (if skip then v = new_ValidationResult
               else validate_total_loss_input vn pt pv sv rq lt = Inr v \<and> is_valid v)"
  using assms
  by (cases pv; cases sv; cases rq)
     (auto simp: calculate_total_loss_def bind_result_def init_ValuationResult_def py_div_def
                 Let_def split: if_splits sum.splits)

subsection \<open>The vehicle identifier and the loss type\<close>

lemma vin_class_chars: "vin_class c \<longleftrightarrow> c \<in> set ''ABCDEFGHJKLMNPRSTUVWXYZ0123456789''"
  by (cases c) (simp add: vin_class_def in_range_def)

lemma spec_vin_alphabet_chars:
  "spec_vin_alphabet = set ''ABCDEFGHJKLMNPRSTUVWXYZ0123456789''"
  unfolding spec_vin_alphabet_def ascii_uppercase_def by auto

lemma vin_class_alphabet: "vin_class c \<longleftrightarrow> c \<in> spec_vin_alphabet"
  by (simp only: vin_class_chars spec_vin_alphabet_chars)

lemma card_spec_vin_alphabet: "card spec_vin_alphabet = 33"
  unfolding spec_vin_alphabet_chars by (simp add: card_insert_if)

lemma vin_pattern_match_17:
  "length s = 17 \<Longrightarrow> vin_pattern_match s \<longleftrightarrow> set s \<subseteq> spec_vin_alphabet"
  by (auto simp: vin_pattern_match_def list_all_iff vin_class_alphabet)

lemma py_strip_Nil: "py_strip [] = []"
  by (simp add: py_strip_def)

lemma validate_vin_iff:
  "validate_vin vn \<longleftrightarrow>
     length (py_upper (py_strip vn)) = 17 \<and> set (py_upper (py_strip vn)) \<subseteq> spec_vin_alphabet"
proof (cases "vn = []")
  case True
  then show ?thesis by (simp add: validate_vin_def py_strip_Nil py_upper_def)
next
  case False
  then show ?thesis
    by (auto simp: validate_vin_def Let_def vin_pattern_match_17)
qed

lemma lower_fixed: "py_lower ''client'' = ''client''" "py_lower ''third_party'' = ''third_party''"
  by (simp_all add: py_lower_def lower_char_def ascii_uppercase_def ascii_lowercase_def)

lemma validate_loss_type_exact: "validate_loss_type ''client''" "validate_loss_type ''third_party''"
  by (simp_all add: validate_loss_type_def lower_fixed LOSS_TYPES_def)

lemma validate_loss_type_iff:
  "validate_loss_type lt \<longleftrightarrow> py_lower lt = ''client'' \<or> py_lower lt = ''third_party''"
  by (auto simp: validate_loss_type_def LOSS_TYPES_def)

subsection \<open>The engine on a validated input\<close>

lemma calculate_total_loss_valid:
  assumes v: "validate_total_loss_input vn pt (Numeric p) (Numeric s) (Numeric r) lt = Inr v"
    and ok: "is_valid v"
    and lt: "lt = ''client'' \<or> lt = ''third_party''"
  shows "\<exists>res. calculate_total_loss vn pt (Numeric p) (Numeric s) (Numeric r) lt False
                 = Inr (Some res, v)"
  using lt
  by (auto simp: calculate_total_loss_def bind_result_def init_ValuationResult_def py_div_def
                 Let_def v ok)

lemma calculate_total_loss_invalid:
  assumes "validate_total_loss_input vn pt pv sv rq lt = Inr v" and "\<not> is_valid v"
  shows "calculate_total_loss vn pt pv sv rq lt False = Inr (None, v)"
  using assms by (simp add: calculate_total_loss_def bind_result_def)

lemma calculate_total_loss_validation_raises:
  assumes "validate_total_loss_input vn pt pv sv rq lt = Inl e"
  shows "calculate_total_loss vn pt pv sv rq lt False = Inl e"
  using assms by (simp add: calculate_total_loss_def bind_result_def)

lemma calculate_total_loss_raises_iff:
  "calculate_total_loss vn pt pv sv rq lt False = Inl e \<longleftrightarrow>
     validate_total_loss_input vn pt pv sv rq lt = Inl e
     \<or> (\<exists>v. validate_total_loss_input vn pt pv sv rq lt = Inr v \<and> is_valid v
            \<and> lt \<noteq> ''client'' \<and> lt \<noteq> ''third_party'' \<and> e = ValueError_loss_type lt)"
proof (cases "validate_total_loss_input vn pt pv sv rq lt")
  case (Inl e')
  then show ?thesis
    by (auto simp: calculate_total_loss_def bind_result_def)
next
  case (Inr v)
  show ?thesis
  proof (cases "is_valid v")
    case False
    with Inr show ?thesis
      by (simp add: calculate_total_loss_def bind_result_def)
  next
    case True
    from valid_input_iff [OF Inr] True
    obtain p s q where "pv = Numeric p" "sv = Numeric s" "rq = Numeric q"
      by blast
    with Inr True show ?thesis
      by (auto simp: calculate_total_loss_def bind_result_def init_ValuationResult_def
                     py_div_def Let_def)
  qed
qed

subsection \<open>The loop of the batch\<close>

lemma batch_loop_Inr:
  "batch_loop cases acc = Inr rs \<longleftrightarrow>
     (\<exists>es. rs = acc @ es
          \<and> list_all2 (\<lambda>c e. \<exists>out. evaluate c = Inr out \<and> e = make_entry c out) cases es)"
proof (induction cases arbitrary: acc)
  case Nil
  then show ?case by auto
next
  case (Cons c cases)
  show ?case
  proof (cases "evaluate c")
    case (Inl e)
    then show ?thesis by (simp add: list_all2_Cons1)
  next
    case (Inr out)
    then show ?thesis
      by (cases out) (auto simp: Cons.IH list_all2_Cons1)
  qed
qed

lemma entries_exist:
  "\<forall>c \<in> set cases. \<exists>out. evaluate c = Inr out \<Longrightarrow>
     \<exists>es. list_all2 (\<lambda>c e. \<exists>out. evaluate c = Inr out \<and> e = make_entry c out) cases es"
proof (induction cases)
  case Nil
  then show ?case by simp
next
  case (Cons c cases)
  then obtain es out where "list_all2 (\<lambda>c e. \<exists>out. evaluate c = Inr out \<and> e = make_entry c out) cases es"
    and "evaluate c = Inr out"
    by auto
  then have "list_all2 (\<lambda>c e. \<exists>out. evaluate c = Inr out \<and> e = make_entry c out)
               (c # cases) (make_entry c out # es)"
    by (cases out) simp
  then show ?case by blast
qed

section \<open>The claims\<close>

text \<open>
  C4. An outcome is valid exactly when its list of errors is empty. Adding a warning
  leaves validity as it was, so an outcome with warnings and no error is valid, and an
  outcome to which an error was added is not.
\<close>

theorem validity_is_absence_of_errors:
  "(is_valid v \<longleftrightarrow> errors v = [])
   \<and> is_valid (add_warning fld msg v) = is_valid v
   \<and> is_valid (add_warning fld msg \<lparr>errors = [], warnings = ws\<rparr>)
   \<and> \<not> is_valid (add_error fld msg x v)"
  by (simp add: is_valid_def add_warning_def add_error_def)

text \<open>
  C10. Of the recognised policy types, \<open>comprehensive\<close>, \<open>third_party_property\<close> and
  \<open>third_party_fire_theft\<close> have no entry in the threshold table and get the fallback
  fraction 0.7; \<open>commercial\<close> gets its own entry 0.65. The engine multiplies the value
  basis of every decision by that fraction.
\<close>

theorem fallback_threshold_of_policy_types:
  assumes "pt \<in> set POLICY_TYPES"
  shows "(pt \<noteq> ''commercial'' \<longrightarrow> map_of THRESHOLDS pt = None \<and> get_threshold pt = 7 / 10)
       \<and> (pt = ''commercial'' \<longrightarrow>
             map_of THRESHOLDS pt = Some (65 / 100) \<and> get_threshold pt = 65 / 100)
       \<and> (\<forall>vn pv sv rq lt skip res v.
             calculate_total_loss vn pt pv sv rq lt skip = Inr (Some res, v) \<longrightarrow>
               threshold res =
                 (if lt = ''client'' then policy_value res
                  else policy_value res - salvage_value res)
                 * (if pt = ''commercial'' then 65 / 100 else 7 / 10))"
proof -
  from assms have pt: "pt = ''comprehensive'' \<or> pt = ''third_party_property''
      \<or> pt = ''third_party_fire_theft'' \<or> pt = ''commercial''"
    by (simp add: POLICY_TYPES_def)
  then have tab: "(pt \<noteq> ''commercial'' \<longrightarrow> map_of THRESHOLDS pt = None)
      \<and> (pt = ''commercial'' \<longrightarrow> map_of THRESHOLDS pt = Some (65 / 100))"
    by (auto simp: THRESHOLDS_def)
  from pt have gt: "get_threshold pt = (if pt = ''commercial'' then 65 / 100 else 7 / 10)"
    by (auto simp: get_threshold_cases)
  have eng: "threshold res =
                 (if lt = ''client'' then policy_value res
                  else policy_value res - salvage_value res)
                 * (if pt = ''commercial'' then 65 / 100 else 7 / 10)"
    if "calculate_total_loss vn pt pv sv rq lt skip = Inr (Some res, v)"
    for vn pv sv rq lt skip res v
    using calculate_total_loss_Some [OF that] gt by auto
  from tab gt eng show ?thesis by (cases "pt = ''commercial''") simp_all
qed

theorem fallback_threshold_of_policy_types_witness:
  "''comprehensive'' \<in> set POLICY_TYPES
   \<and> ''comprehensive'' \<noteq> ''commercial''
   \<and> map_of THRESHOLDS ''comprehensive'' = None
   \<and> get_threshold ''comprehensive'' = 7 / 10
   \<and> calculate_total_loss ''1HGBH41JXMN109186'' ''comprehensive'' (Numeric 20000)
        (Numeric 5000) (Numeric 15000) ''client'' False
      = Inr (Some \<lparr>is_total_loss = True, threshold = 14000, policy_value = 20000,
                   salvage_value = 5000, repair_quote = 15000, loss_type = ''client'',
                   policy_type = ''comprehensive'', vin = ''1HGBH41JXMN109186'',
                   calculation_method = Percent_of_Policy_Value 70,
                   threshold_percentage = 750 / 7, decision_margin = 1000\<rparr>,
             \<lparr>errors = [], warnings = []\<rparr>)"
proof -
  have m: "''comprehensive'' \<in> set POLICY_TYPES"
    by (simp add: POLICY_TYPES_def)
  have c: "calculate_total_loss ''1HGBH41JXMN109186'' ''comprehensive'' (Numeric 20000)
        (Numeric 5000) (Numeric 15000) ''client'' False
      = Inr (Some \<lparr>is_total_loss = True, threshold = 14000, policy_value = 20000,
                   salvage_value = 5000, repair_quote = 15000, loss_type = ''client'',
                   policy_type = ''comprehensive'', vin = ''1HGBH41JXMN109186'',
                   calculation_method = Percent_of_Policy_Value 70,
                   threshold_percentage = 750 / 7, decision_margin = 1000\<rparr>,
             \<lparr>errors = [], warnings = []\<rparr>)"
    by code_simp
  from fallback_threshold_of_policy_types [OF m] m c show ?thesis by simp
qed

text \<open>
  C1. Every decision the engine computes is a total loss exactly when the repair quote is
  strictly greater than the threshold, and its margin is the repair quote minus the
  threshold. A repair quote equal to the threshold is therefore repairable with margin 0.
  A decision is computed for the loss types \<open>client\<close> and \<open>third_party\<close> only, and the
  statement holds for both.
\<close>

theorem decision_is_strict_comparison:
  assumes "calculate_total_loss vn pt pv sv rq lt skip = Inr (Some res, v)"
  shows "is_total_loss res = (repair_quote res > threshold res)
       \<and> decision_margin res = repair_quote res - threshold res
       \<and> (repair_quote res = threshold res \<longrightarrow>
            \<not> is_total_loss res \<and> decision_margin res = 0)
       \<and> py_float rq = Inr (repair_quote res)
       \<and> (lt = ''client'' \<or> lt = ''third_party'')"
  using calculate_total_loss_Some [OF assms] by auto

theorem decision_is_strict_comparison_witness:
  "calculate_total_loss ''7HGBH41JXMN109192'' ''comprehensive'' (Numeric 20000)
      (Numeric 5000) (Numeric 14000) ''client'' False
     = Inr (Some \<lparr>is_total_loss = False, threshold = 14000, policy_value = 20000,
                  salvage_value = 5000, repair_quote = 14000, loss_type = ''client'',
                  policy_type = ''comprehensive'', vin = ''7HGBH41JXMN109192'',
                  calculation_method = Percent_of_Policy_Value 70,
                  threshold_percentage = 100, decision_margin = 0\<rparr>,
            \<lparr>errors = [], warnings = []\<rparr>)
   \<and> calculate_total_loss ''7HGBH41JXMN109192'' ''comprehensive'' (Numeric 20000)
      (Numeric 5000) (Numeric 10500) ''third_party'' False
     = Inr (Some \<lparr>is_total_loss = False, threshold = 10500, policy_value = 20000,
                  salvage_value = 5000, repair_quote = 10500, loss_type = ''third_party'',
                  policy_type = ''comprehensive'', vin = ''7HGBH41JXMN109192'',
                  calculation_method = Percent_of_Net_Value 70,
                  threshold_percentage = 100, decision_margin = 0\<rparr>,
            \<lparr>errors = [], warnings = []\<rparr>)"
proof -
  let ?c = "\<lparr>is_total_loss = False, threshold = 14000, policy_value = 20000,
                  salvage_value = 5000, repair_quote = 14000, loss_type = ''client'',
                  policy_type = ''comprehensive'', vin = ''7HGBH41JXMN109192'',
                  calculation_method = Percent_of_Policy_Value 70,
                  threshold_percentage = 100, decision_margin = 0\<rparr>"
  let ?t = "\<lparr>is_total_loss = False, threshold = 10500, policy_value = 20000,
                  salvage_value = 5000, repair_quote = 10500, loss_type = ''third_party'',
                  policy_type = ''comprehensive'', vin = ''7HGBH41JXMN109192'',
                  calculation_method = Percent_of_Net_Value 70,
                  threshold_percentage = 100, decision_margin = 0\<rparr>"
  have c: "calculate_total_loss ''7HGBH41JXMN109192'' ''comprehensive'' (Numeric 20000)
      (Numeric 5000) (Numeric 14000) ''client'' False
     = Inr (Some ?c, \<lparr>errors = [], warnings = []\<rparr>)"
    by code_simp
  have t: "calculate_total_loss ''7HGBH41JXMN109192'' ''comprehensive'' (Numeric 20000)
      (Numeric 5000) (Numeric 10500) ''third_party'' False
     = Inr (Some ?t, \<lparr>errors = [], warnings = []\<rparr>)"
    by code_simp
  from decision_is_strict_comparison [OF c] decision_is_strict_comparison [OF t] c t
  show ?thesis by simp
qed

text \<open>
  C8. The constructor of a result always returns: it divides by the threshold only when
  the threshold is positive, and sets the percentage to 0 otherwise. So in every computed
  decision the percentage is repair quote / threshold * 100 for a positive threshold and
  0 for a threshold of 0, as in a third-party case whose salvage equals the policy value.
\<close>

theorem threshold_percentage_is_guarded:
  "(\<exists>res. init_ValuationResult itl th p s r lt pt vn cm = Inr res
         \<and> threshold res = th \<and> repair_quote res = r
         \<and> threshold_percentage res = (if th > 0 then r / th * 100 else 0))
   \<and> (\<forall>pv sv rq skip res v.
         calculate_total_loss vn pt pv sv rq lt skip = Inr (Some res, v) \<longrightarrow>
           (threshold res > 0 \<longrightarrow>
              threshold_percentage res = repair_quote res / threshold res * 100)
           \<and> (threshold res = 0 \<longrightarrow> threshold_percentage res = 0)
           \<and> (lt = ''third_party'' \<and> salvage_value res = policy_value res \<longrightarrow>
                threshold res = 0 \<and> threshold_percentage res = 0))"
proof -
  have a: "\<exists>res. init_ValuationResult itl th p s r lt pt vn cm = Inr res
         \<and> threshold res = th \<and> repair_quote res = r
         \<and> threshold_percentage res = (if th > 0 then r / th * 100 else 0)"
    by (simp add: init_ValuationResult_def bind_result_def py_div_def)
  have b: "(threshold res > 0 \<longrightarrow>
              threshold_percentage res = repair_quote res / threshold res * 100)
           \<and> (threshold res = 0 \<longrightarrow> threshold_percentage res = 0)
           \<and> (lt = ''third_party'' \<and> salvage_value res = policy_value res \<longrightarrow>
                threshold res = 0 \<and> threshold_percentage res = 0)"
    if "calculate_total_loss vn pt pv sv rq lt skip = Inr (Some res, v)"
    for pv sv rq skip res v
    using calculate_total_loss_Some [OF that] by auto
  from a b show ?thesis by blast
qed

theorem threshold_percentage_is_guarded_witness:
  "calculate_total_loss ''5HGBH41JXMN109190'' ''comprehensive'' (Numeric 20000)
      (Numeric 20000) (Numeric 5000) ''third_party'' False
     = Inr (Some \<lparr>is_total_loss = True, threshold = 0, policy_value = 20000,
                  salvage_value = 20000, repair_quote = 5000, loss_type = ''third_party'',
                  policy_type = ''comprehensive'', vin = ''5HGBH41JXMN109190'',
                  calculation_method = Percent_of_Net_Value 70,
                  threshold_percentage = 0, decision_margin = 5000\<rparr>,
            \<lparr>errors = [], warnings = []\<rparr>)
   \<and> calculate_total_loss ''5HGBH41JXMN109190'' ''comprehensive'' (Numeric 20000)
      (Numeric 6000) (Numeric 4900) ''third_party'' False
     = Inr (Some \<lparr>is_total_loss = False, threshold = 9800, policy_value = 20000,
                  salvage_value = 6000, repair_quote = 4900, loss_type = ''third_party'',
                  policy_type = ''comprehensive'', vin = ''5HGBH41JXMN109190'',
                  calculation_method = Percent_of_Net_Value 70,
                  threshold_percentage = 50, decision_margin = - 4900\<rparr>,
            \<lparr>errors = [], warnings = []\<rparr>)"
proof -
  have z: "calculate_total_loss ''5HGBH41JXMN109190'' ''comprehensive'' (Numeric 20000)
      (Numeric 20000) (Numeric 5000) ''third_party'' False
     = Inr (Some \<lparr>is_total_loss = True, threshold = 0, policy_value = 20000,
                  salvage_value = 20000, repair_quote = 5000, loss_type = ''third_party'',
                  policy_type = ''comprehensive'', vin = ''5HGBH41JXMN109190'',
                  calculation_method = Percent_of_Net_Value 70,
                  threshold_percentage = 0, decision_margin = 5000\<rparr>,
            \<lparr>errors = [], warnings = []\<rparr>)"
    by code_simp
  have p: "calculate_total_loss ''5HGBH41JXMN109190'' ''comprehensive'' (Numeric 20000)
      (Numeric 6000) (Numeric 4900) ''third_party'' False
     = Inr (Some \<lparr>is_total_loss = False, threshold = 9800, policy_value = 20000,
                  salvage_value = 6000, repair_quote = 4900, loss_type = ''third_party'',
                  policy_type = ''comprehensive'', vin = ''5HGBH41JXMN109190'',
                  calculation_method = Percent_of_Net_Value 70,
                  threshold_percentage = 50, decision_margin = - 4900\<rparr>,
            \<lparr>errors = [], warnings = []\<rparr>)"
    by code_simp
  from threshold_percentage_is_guarded
         [of True 0 20000 20000 5000 "''third_party''" "''comprehensive''"
             "''5HGBH41JXMN109190''" "Percent_of_Net_Value 70"] z p
  show ?thesis by simp
qed

text \<open>
  C6. Take an input that meets every rule of the validator: a well-formed vehicle
  identifier, a recognised policy type, the loss type \<open>client\<close> or \<open>third_party\<close>, a
  policy value within its bounds and a salvage value between the minimum and the policy
  value. If its repair quote exceeds the policy value times the configured ratio, the
  engine returns a decision together with an outcome that has no error and a warning on
  the field \<open>repair_quote\<close>, and the decision is a total loss.
\<close>

theorem high_repair_quote_warns_and_is_total_loss:
  assumes vin: "validate_vin vn" and pt: "validate_policy_type pt"
    and lt: "lt = ''client'' \<or> lt = ''third_party''"
    and p: "min_policy_value \<le> p" "p \<le> max_policy_value"
    and s: "min_salvage_value \<le> s" "s \<le> p"
    and r: "r > p * max_repair_quote_ratio"
  shows "\<exists>res v. calculate_total_loss vn pt (Numeric p) (Numeric s) (Numeric r) lt False
                   = Inr (Some res, v)
           \<and> errors v = [] \<and> is_valid v
           \<and> warnings v \<noteq> [] \<and> ''repair_quote'' \<in> set (warning_fields v)
           \<and> is_total_loss res"
proof -
  from p s r have b: "1000 \<le> p" "p \<le> 500000" "0 \<le> s" "p * 2 < r" "0 \<le> r" "p \<noteq> 0"
    by (simp_all add: min_policy_value_def max_policy_value_def min_salvage_value_def
                      max_repair_quote_ratio_def)
  from lt have vlt: "validate_loss_type lt"
    using validate_loss_type_exact by auto
  have "\<not> (\<exists>e. validate_total_loss_input vn pt (Numeric p) (Numeric s) (Numeric r) lt = Inl e)"
    using b(6) by (simp add: validate_total_loss_input_raises)
  then obtain v where v: "validate_total_loss_input vn pt (Numeric p) (Numeric s) (Numeric r) lt = Inr v"
    by (cases "validate_total_loss_input vn pt (Numeric p) (Numeric s) (Numeric r) lt") auto
  from validate_total_loss_input_fields [OF v] vin pt vlt b s(2)
  have ef: "error_fields v = []" and wf: "warning_fields v = [''repair_quote'']"
    by simp_all
  from ef have ok: "is_valid v" and e: "errors v = []"
    by (simp_all add: is_valid_error_fields error_fields_def)
  from wf have w: "warnings v \<noteq> []"
    by (auto simp: warning_fields_def)
  from calculate_total_loss_valid [OF v ok lt]
  obtain res where res: "calculate_total_loss vn pt (Numeric p) (Numeric s) (Numeric r) lt False
                   = Inr (Some res, v)"
    by blast
  have g: "0 \<le> get_threshold pt" "get_threshold pt \<le> 1"
    by (simp_all add: get_threshold_cases)
  have t1: "p * get_threshold pt \<le> p"
    using mult_left_mono [OF g(2), of p] b(1) by simp
  have t2: "(p - s) * get_threshold pt \<le> p - s"
    using mult_left_mono [OF g(2), of "p - s"] s(2) by simp
  from t1 b have c1: "p * get_threshold pt < r" by linarith
  from t2 b have c2: "(p - s) * get_threshold pt < r" by linarith
  from c1 c2
  have "is_total_loss res" using calculate_total_loss_Some [OF res]
    by auto
  with res e ok w wf show ?thesis by simp
qed

theorem high_repair_quote_warns_and_is_total_loss_witness:
  "validate_vin ''9HGBH41JXMN109194'' \<and> validate_policy_type ''comprehensive''
   \<and> min_policy_value \<le> 20000 \<and> 20000 \<le> max_policy_value
   \<and> min_salvage_value \<le> 5000 \<and> (5000::real) \<le> 20000
   \<and> (40001::real) > 20000 * max_repair_quote_ratio
   \<and> (\<exists>res v. calculate_total_loss ''9HGBH41JXMN109194'' ''comprehensive'' (Numeric 20000)
                  (Numeric 5000) (Numeric 40001) ''client'' False = Inr (Some res, v)
           \<and> errors v = [] \<and> is_valid v
           \<and> warnings v \<noteq> [] \<and> ''repair_quote'' \<in> set (warning_fields v)
           \<and> is_total_loss res)"
proof -
  have v: "validate_vin ''9HGBH41JXMN109194''" by code_simp
  have pt: "validate_policy_type ''comprehensive''" by code_simp
  have b: "min_policy_value \<le> 20000" "20000 \<le> max_policy_value"
    "min_salvage_value \<le> 5000" "(5000::real) \<le> 20000"
    "(40001::real) > 20000 * max_repair_quote_ratio"
    by (simp_all add: min_policy_value_def max_policy_value_def min_salvage_value_def
                      max_repair_quote_ratio_def)
  from high_repair_quote_warns_and_is_total_loss
         [OF v pt disjI1 [OF refl] b(1) b(2) b(3) b(4) b(5)] v pt b
  show ?thesis by simp
qed

text \<open>
  C9. The check of the vehicle identifier accepts a string exactly when its trimmed,
  upper-cased form has 17 characters, all of them in the alphabet of the digits and the
  uppercase letters without I, O and Q, which has 33 symbols and is the character class
  of the validator. Whenever the validation of an input returns an outcome, the outcome
  holds an error on the field \<open>vin\<close> exactly when the check rejected the identifier.
\<close>

theorem vin_check:
  "(validate_vin vn \<longleftrightarrow>
      length (py_upper (py_strip vn)) = 17
      \<and> set (py_upper (py_strip vn)) \<subseteq> spec_vin_alphabet)
   \<and> card spec_vin_alphabet = 33
   \<and> (\<forall>c. vin_class c \<longleftrightarrow> c \<in> spec_vin_alphabet)
   \<and> (\<forall>pt pv sv rq lt v.
         validate_total_loss_input vn pt pv sv rq lt = Inr v \<longrightarrow>
           (''vin'' \<in> set (error_fields v) \<longleftrightarrow> \<not> validate_vin vn))"
proof -
  have "''vin'' \<in> set (error_fields v) \<longleftrightarrow> \<not> validate_vin vn"
    if "validate_total_loss_input vn pt pv sv rq lt = Inr v" for pt pv sv rq lt v
    unfolding validate_total_loss_input_fields(1) [OF that] by simp
  with validate_vin_iff [of vn] card_spec_vin_alphabet vin_class_alphabet
  show ?thesis by blast
qed

theorem vin_check_witness:
  "\<not> validate_vin ''1HGBH41IXMN109186''
   \<and> validate_total_loss_input ''1HGBH41IXMN109186'' ''comprehensive'' (Numeric 20000)
        (Numeric 5000) (Numeric 15000) ''client''
      = Inr \<lparr>errors = [\<lparr>err_field = ''vin'', err_message = Invalid_vin_format,
                         err_value = Str ''1HGBH41IXMN109186''\<rparr>], warnings = []\<rparr>
   \<and> ''vin'' \<in> set (error_fields
                       \<lparr>errors = [\<lparr>err_field = ''vin'', err_message = Invalid_vin_format,
                                   err_value = Str ''1HGBH41IXMN109186''\<rparr>], warnings = []\<rparr>)
   \<and> validate_vin '' 1hgbh41jxmn109186 ''"
proof -
  have n: "\<not> validate_vin ''1HGBH41IXMN109186''" by code_simp
  have y: "validate_vin '' 1hgbh41jxmn109186 ''" by code_simp
  have v: "validate_total_loss_input ''1HGBH41IXMN109186'' ''comprehensive'' (Numeric 20000)
        (Numeric 5000) (Numeric 15000) ''client''
      = Inr \<lparr>errors = [\<lparr>err_field = ''vin'', err_message = Invalid_vin_format,
                         err_value = Str ''1HGBH41IXMN109186''\<rparr>], warnings = []\<rparr>"
    by code_simp
  from vin_check [of "''1HGBH41IXMN109186''"] n y v show ?thesis by blast
qed

text \<open>
  C7, against the claim as stated. A batch of two cases: the first alone yields a
  decision; the second skips validation and names a loss type the engine does not know,
  so the engine raises. The batch then raises as well and yields no entry for the first
  case.
\<close>

theorem batch_aborts_on_raising_case:
  "evaluate \<lparr>case_vin = ''1HGBH41JXMN109186'', case_policy_type = ''comprehensive'',
             case_policy_value = Numeric 20000, case_salvage_value = Numeric 5000,
             case_repair_quote = Numeric 15000, case_loss_type = ''client'',
             case_skip_validation = False\<rparr>
     = Inr (Some \<lparr>is_total_loss = True, threshold = 14000, policy_value = 20000,
                  salvage_value = 5000, repair_quote = 15000, loss_type = ''client'',
                  policy_type = ''comprehensive'', vin = ''1HGBH41JXMN109186'',
                  calculation_method = Percent_of_Policy_Value 70,
                  threshold_percentage = 750 / 7, decision_margin = 1000\<rparr>,
            \<lparr>errors = [], warnings = []\<rparr>)
   \<and> calculate_batch
       [\<lparr>case_vin = ''1HGBH41JXMN109186'', case_policy_type = ''comprehensive'',
          case_policy_value = Numeric 20000, case_salvage_value = Numeric 5000,
          case_repair_quote = Numeric 15000, case_loss_type = ''client'',
          case_skip_validation = False\<rparr>,
        \<lparr>case_vin = ''2HGBH41JXMN109187'', case_policy_type = ''comprehensive'',
          case_policy_value = Numeric 25000, case_salvage_value = Numeric 7000,
          case_repair_quote = Numeric 13000, case_loss_type = ''fleet'',
          case_skip_validation = True\<rparr>]
     = Inl (ValueError_loss_type ''fleet'')"
  by code_simp

text \<open>
  C7, as amended. When the evaluation of every case of a batch returns, be it a decision
  or a failed validation, the batch returns a list as long as the input whose entry at
  each index is built from the evaluation of the case at that index alone: the case, the
  serialised decision or none, and the summary of the validation.
\<close>

theorem calculate_batch_pointwise:
  assumes "\<forall>c \<in> set cases. \<exists>out. evaluate c = Inr out"
  shows "\<exists>rs. calculate_batch cases = Inr rs \<and> length rs = length cases
           \<and> (\<forall>i < length cases.
                 \<exists>out. evaluate (cases ! i) = Inr out \<and> rs ! i = make_entry (cases ! i) out)"
proof -
  from entries_exist [OF assms] obtain es
    where es: "list_all2 (\<lambda>c e. \<exists>out. evaluate c = Inr out \<and> e = make_entry c out) cases es"
    by blast
  then have "calculate_batch cases = Inr es"
    by (simp add: calculate_batch_def batch_loop_Inr)
  moreover from es have "length es = length cases"
    by (simp add: list_all2_lengthD)
  moreover from es have "\<forall>i < length cases.
      \<exists>out. evaluate (cases ! i) = Inr out \<and> es ! i = make_entry (cases ! i) out"
    by (simp add: list_all2_conv_all_nth)
  ultimately show ?thesis by blast
qed

theorem calculate_batch_pointwise_witness:
  "calculate_batch
       [\<lparr>case_vin = ''1HGBH41JXMN109186'', case_policy_type = ''comprehensive'',
          case_policy_value = Numeric 20000, case_salvage_value = Numeric 5000,
          case_repair_quote = Numeric 15000, case_loss_type = ''client'',
          case_skip_validation = False\<rparr>,
        \<lparr>case_vin = ''6HGBH41JXMN109191'', case_policy_type = ''comprehensive'',
          case_policy_value = Numeric 20000, case_salvage_value = Numeric 5000,
          case_repair_quote = Numeric (- 1000), case_loss_type = ''client'',
          case_skip_validation = False\<rparr>]
    = Inr [\<lparr>entry_case =
               \<lparr>case_vin = ''1HGBH41JXMN109186'', case_policy_type = ''comprehensive'',
                case_policy_value = Numeric 20000, case_salvage_value = Numeric 5000,
                case_repair_quote = Numeric 15000, case_loss_type = ''client'',
                case_skip_validation = False\<rparr>,
             entry_result =
               Some \<lparr>d_vin = ''1HGBH41JXMN109186'', d_decision = ''TOTAL LOSS'',
                     d_loss_type = ''client'', d_policy_type = ''comprehensive'',
                     d_policy_value = 20000, d_salvage_value = 5000, d_repair_quote = 15000,
                     d_threshold = 14000, d_threshold_percentage = 10714 / 100,
                     d_decision_margin = 1000,
                     d_calculation_method = Percent_of_Policy_Value 70\<rparr>,
             entry_validation = All_validations_passed None\<rparr>,
           \<lparr>entry_case =
               \<lparr>case_vin = ''6HGBH41JXMN109191'', case_policy_type = ''comprehensive'',
                case_policy_value = Numeric 20000, case_salvage_value = Numeric 5000,
                case_repair_quote = Numeric (- 1000), case_loss_type = ''client'',
                case_skip_validation = False\<rparr>,
             entry_result = None,
             entry_validation =
               Validation_failed 1 [(''repair_quote'', Cannot_be_negative ''Repair Quote'')]\<rparr>]"
proof -
  let ?a = "\<lparr>case_vin = ''1HGBH41JXMN109186'', case_policy_type = ''comprehensive'',
          case_policy_value = Numeric 20000, case_salvage_value = Numeric 5000,
          case_repair_quote = Numeric 15000, case_loss_type = ''client'',
          case_skip_validation = False\<rparr>"
  let ?b = "\<lparr>case_vin = ''6HGBH41JXMN109191'', case_policy_type = ''comprehensive'',
          case_policy_value = Numeric 20000, case_salvage_value = Numeric 5000,
          case_repair_quote = Numeric (- 1000), case_loss_type = ''client'',
          case_skip_validation = False\<rparr>"
  have "evaluate ?a
          = Inr (Some \<lparr>is_total_loss = True, threshold = 14000, policy_value = 20000,
                       salvage_value = 5000, repair_quote = 15000, loss_type = ''client'',
                       policy_type = ''comprehensive'', vin = ''1HGBH41JXMN109186'',
                       calculation_method = Percent_of_Policy_Value 70,
                       threshold_percentage = 750 / 7, decision_margin = 1000\<rparr>,
                 \<lparr>errors = [], warnings = []\<rparr>)"
    by code_simp
  then have a: "\<exists>out. evaluate ?a = Inr out"
    by blast
  have "evaluate ?b
          = Inr (None,
                 \<lparr>errors = [\<lparr>err_field = ''repair_quote'',
                             err_message = Cannot_be_negative ''Repair Quote'',
                             err_value = Raw (Numeric (- 1000))\<rparr>],
                  warnings = []\<rparr>)"
    by code_simp
  then have b: "\<exists>out. evaluate ?b = Inr out"
    by blast
  have h: "\<forall>c \<in> set [?a, ?b]. \<exists>out. evaluate c = Inr out"
    using a b by simp
  have e: ?thesis
    by code_simp
  from calculate_batch_pointwise [OF h] e show ?thesis by simp
qed

text \<open>
  C3, at the failing input. With a policy value of 0 and a positive repair quote the
  validator records the error on \<open>policy_value\<close> and then divides the repair quote by the
  policy value to word its warning; the division raises, and so does the engine, instead
  of returning no decision together with the outcome.
\<close>

theorem validation_raises_on_zero_policy_value:
  "check_policy_value (Numeric 0) new_ValidationResult
     = Inr \<lparr>errors = [\<lparr>err_field = ''policy_value'',
                        err_message = Must_be_at_least ''Policy Value'' 1000,
                        err_value = Raw (Numeric 0)\<rparr>],
            warnings = []\<rparr>
   \<and> validate_total_loss_input ''1HGBH41JXMN109186'' ''comprehensive'' (Numeric 0)
        (Numeric 0) (Numeric 5000) ''client'' = Inl ZeroDivisionError
   \<and> calculate_total_loss ''1HGBH41JXMN109186'' ''comprehensive'' (Numeric 0)
        (Numeric 0) (Numeric 5000) ''client'' False = Inl ZeroDivisionError"
  by code_simp

text \<open>
  C5, at the failing input. The validator lower-cases the loss type before it looks it
  up, so \<open>CLIENT\<close> passes validation without an error; the engine compares the loss type
  as given with \<open>client\<close> and \<open>third_party\<close> and raises on it.
\<close>

theorem uppercase_loss_type_passes_validation:
  "validate_loss_type ''CLIENT''
   \<and> validate_total_loss_input ''1HGBH41JXMN109186'' ''comprehensive'' (Numeric 20000)
        (Numeric 5000) (Numeric 15000) ''CLIENT'' = Inr \<lparr>errors = [], warnings = []\<rparr>
   \<and> calculate_total_loss ''1HGBH41JXMN109186'' ''comprehensive'' (Numeric 20000)
        (Numeric 5000) (Numeric 15000) ''CLIENT'' False = Inl (ValueError_loss_type ''CLIENT'')"
  by code_simp

end
